theory Spec2Isabelle
  imports Main "HOL-Library.Sublist"
begin

section \<open>JavaScript values\<close>

text \<open>
  Values that cross the two boundaries of \<open>src/index.ts\<close> (tool-call arguments coming in,
  upstream response bodies coming back) are the values \<open>JSON.parse\<close> builds. The JavaScript
  value \<open>undefined\<close> is \<open>None\<close> of \<open>json option\<close>.

  A number is an IEEE double. \<open>Finite s\<close> is a finite one, named by the text \<open>s\<close> that
  \<open>Number.prototype.toString\<close> gives for it (\<open>1.3521\<close>, \<open>-20\<close>, \<open>1e+21\<close>; both zeros are
  \<open>0\<close>): that text determines the double, and how the engine finds the digits is not
  modelled. The infinities arise when a literal overflows. \<open>JSON.parse\<close> never builds NaN.

  An object lists its own properties in the order the engine enumerates them; the keys
  of a parsed object are distinct, its values are never functions and its prototype is
  \<open>Object.prototype\<close>.
\<close>

datatype number = Finite string | PlusInfinity | MinusInfinity

datatype json =
    JNull
  | JBool bool
  | JNum number
  | JStr string
  | JArr "json list"
  | JObj "(string \<times> json) list"

text \<open>Truthiness, as the operator \<open>&&\<close> tests it.\<close>

fun truthy :: "json option \<Rightarrow> bool" where
  "truthy None = False"
| "truthy (Some JNull) = False"
| "truthy (Some (JBool b)) = b"
| "truthy (Some (JNum n)) = (n \<noteq> Finite ''0'')"
| "truthy (Some (JStr s)) = (s \<noteq> [])"
| "truthy (Some (JArr vs)) = True"
| "truthy (Some (JObj kvs)) = True"

fun Number_toString :: "number \<Rightarrow> string" where
  "Number_toString (Finite s) = s"
| "Number_toString PlusInfinity = ''Infinity''"
| "Number_toString MinusInfinity = ''-Infinity''"

fun join :: "string \<Rightarrow> string list \<Rightarrow> string" where
  "join sep [] = []"
| "join sep [x] = x"
| "join sep (x # y # ys) = x @ sep @ join sep (y # ys)"

text \<open>
  The TypeErrors of the engine that a call can meet, by their cause (the wording of
  their messages is the engine's): destructuring a property out of \<open>undefined\<close>, and
  converting to a primitive an object that has no usable \<open>toString\<close> or \<open>valueOf\<close>.
\<close>

datatype type_error = Cannot_destructure string | Not_primitive

text \<open>The results of a list of steps run in order: the first failure ends the run.\<close>

fun collect :: "('e + 'a) list \<Rightarrow> 'e + 'a list" where
  "collect [] = Inr []"
| "collect (Inl e # xs) = Inl e"
| "collect (Inr x # xs) = (case collect xs of Inl e \<Rightarrow> Inl e | Inr ys \<Rightarrow> Inr (x # ys))"

text \<open>
  The string a value turns into inside a template literal \<open>`${v}`\<close>. A string is itself.
  An array joins its elements with commas, a null element giving the empty string. An
  object is converted by the \<open>toString\<close> it finds: \<open>Object.prototype.toString\<close>, which
  gives \<open>[object Object]\<close>, unless the object has an own property of that name; that
  property is no function, \<open>valueOf\<close> gives no primitive either, and the conversion
  throws a TypeError.
\<close>

fun ToString :: "json \<Rightarrow> type_error + string" where
  "ToString JNull = Inr ''null''"
| "ToString (JBool b) = Inr (if b then ''true'' else ''false'')"
| "ToString (JNum n) = Inr (Number_toString n)"
| "ToString (JStr s) = Inr s"
| "ToString (JArr vs) =
     (case collect (map (\<lambda>v. if v = JNull then Inr [] else ToString v) vs) of
        Inl e \<Rightarrow> Inl e
      | Inr ss \<Rightarrow> Inr (join '','' ss))"
| "ToString (JObj kvs) =
     (if ''toString'' \<in> set (map fst kvs) then Inl Not_primitive
      else Inr ''[object Object]'')"

subsection \<open>\<open>JSON.stringify(value, null, space)\<close>\<close>

definition hex_digit :: "nat \<Rightarrow> char" where
  "hex_digit d = (''0123456789abcdef'' ! (d mod 16))"

definition quote_char :: "char \<Rightarrow> string" where
  "quote_char c =
     (if c = CHR 0x22 then [CHR 0x5C, CHR 0x22]
      else if c = CHR 0x5C then [CHR 0x5C, CHR 0x5C]
      else if c = CHR 0x08 then [CHR 0x5C, CHR ''b'']
      else if c = CHR 0x09 then [CHR 0x5C, CHR ''t'']
      else if c = CHR 0x0A then [CHR 0x5C, CHR ''n'']
      else if c = CHR 0x0C then [CHR 0x5C, CHR ''f'']
      else if c = CHR 0x0D then [CHR 0x5C, CHR ''r'']
      else if of_char c < (32::nat) then
        [CHR 0x5C, CHR ''u'', CHR ''0'', CHR ''0'',
         hex_digit (of_char c div 16), hex_digit (of_char c mod 16)]
      else [c])"

definition QuoteJSONString :: "string \<Rightarrow> string" where
  "QuoteJSONString s = [CHR 0x22] @ concat (map quote_char s) @ [CHR 0x22]"

text \<open>A number that is not finite is serialised as \<open>null\<close>.\<close>

fun SerializeJSONProperty :: "string \<Rightarrow> string \<Rightarrow> json \<Rightarrow> string" where
  "SerializeJSONProperty gap indent JNull = ''null''"
| "SerializeJSONProperty gap indent (JBool b) = (if b then ''true'' else ''false'')"
| "SerializeJSONProperty gap indent (JNum n) =
     (case n of Finite s \<Rightarrow> Number_toString n | _ \<Rightarrow> ''null'')"
| "SerializeJSONProperty gap indent (JStr s) = QuoteJSONString s"
| "SerializeJSONProperty gap indent (JArr vs) =
     (if vs = [] then ''[]''
      else let stepback = indent; indent' = indent @ gap;
               partial = map (SerializeJSONProperty gap indent') vs
           in if gap = [] then ''['' @ join '','' partial @ '']''
              else ''['' @ [CHR 0x0A] @ indent' @ join ('','' @ [CHR 0x0A] @ indent') partial
                   @ [CHR 0x0A] @ stepback @ '']'')"
| "SerializeJSONProperty gap indent (JObj kvs) =
     (if kvs = [] then ''{}''
      else let stepback = indent; indent' = indent @ gap;
               partial = map (\<lambda>(k, v). QuoteJSONString k @ '':''
                                  @ (if gap = [] then [] else '' '')
                                  @ SerializeJSONProperty gap indent' v) kvs
           in if gap = [] then ''{'' @ join '','' partial @ ''}''
              else ''{'' @ [CHR 0x0A] @ indent' @ join ('','' @ [CHR 0x0A] @ indent') partial
                   @ [CHR 0x0A] @ stepback @ ''}'')"

definition JSON_stringify :: "json \<Rightarrow> nat \<Rightarrow> string" where
  "JSON_stringify v space = SerializeJSONProperty (replicate (min space 10) CHR '' '') [] v"

section \<open>The tool catalog (\<open>ListToolsRequestSchema\<close> handler)\<close>

record property_schema =
  prop_type :: string
  prop_description :: string
  enum :: "string list option"

record input_schema =
  schema_type :: string
  properties :: "(string \<times> property_schema) list"
  required :: "string list option"

record tool =
  name :: string
  description :: string
  inputSchema :: input_schema

definition train_lines :: "string list" where
  "train_lines =
     [''CCL'', ''CEL'', ''CGL'', ''DTL'', ''EWL'', ''NEL'', ''NSL'', ''BPL'', ''SLRT'', ''PLRT'',
      ''TEL'']"

definition trainLine_property :: property_schema where
  "trainLine_property =
     \<lparr> prop_type = ''string'',
       prop_description =
         ''Code of train network line (CCL, CEL, CGL, DTL, EWL, NEL, NSL, BPL, SLRT, PLRT, TEL)'',
       enum = Some train_lines \<rparr>"

definition no_parameters :: input_schema where
  "no_parameters = \<lparr> schema_type = ''object'', properties = [], required = None \<rparr>"

definition tools :: "tool list" where
  "tools =
    [ \<lparr> name = ''bus_arrival'',
        description = ''Get real-time bus arrival information for a specific bus stop and optionally a specific service number. Returns estimated arrival times, bus locations, and crowding levels.'',
        inputSchema =
          \<lparr> schema_type = ''object'',
            properties =
              [(''busStopCode'',
                 \<lparr> prop_type = ''string'',
                   prop_description = ''The unique 5-digit bus stop code'',
                   enum = None \<rparr>),
               (''serviceNo'',
                 \<lparr> prop_type = ''string'',
                   prop_description = ''Optional bus service number to filter results'',
                   enum = None \<rparr>)],
            required = Some [''busStopCode''] \<rparr> \<rparr>,
      \<lparr> name = ''station_crowding'',
        description = ''Get real-time MRT/LRT station crowdedness level for a particular train network line. Updates every 10 minutes.'',
        inputSchema =
          \<lparr> schema_type = ''object'',
            properties = [(''trainLine'', trainLine_property)],
            required = Some [''trainLine''] \<rparr> \<rparr>,
      \<lparr> name = ''train_alerts'',
        description = ''Get real-time train service alerts including service disruptions and shuttle services. Updates when there are changes.'',
        inputSchema = no_parameters \<rparr>,
      \<lparr> name = ''carpark_availability'',
        description = ''Get real-time availability of parking lots for HDB, LTA, and URA carparks. Updates every minute.'',
        inputSchema = no_parameters \<rparr>,
      \<lparr> name = ''travel_times'',
        description = ''Get estimated travel times on expressway segments. Updates every 5 minutes.'',
        inputSchema = no_parameters \<rparr>,
      \<lparr> name = ''traffic_incidents'',
        description = ''Get current road incidents including accidents, roadworks, and heavy traffic. Updates every 2 minutes.'',
        inputSchema = no_parameters \<rparr>,
      \<lparr> name = ''station_crowd_forecast'',
        description = ''Get forecasted MRT/LRT station crowdedness levels in 30-minute intervals.'',
        inputSchema =
          \<lparr> schema_type = ''object'',
            properties = [(''trainLine'', trainLine_property)],
            required = Some [''trainLine''] \<rparr> \<rparr> ]"

section \<open>The outside world of a tool call\<close>

text \<open>
  What \<open>axios.get(url, config)\<close> is given: the URL and the \<open>params\<close> and \<open>headers\<close>
  objects of the configuration. \<open>params = None\<close> is a configuration with no \<open>params\<close> key;
  a parameter or header bound to \<open>None\<close> is bound to \<open>undefined\<close>.
\<close>

datatype http_method = GET

record http_request =
  req_method :: http_method
  url :: string
  params :: "(string \<times> json option) list option"
  headers :: "(string \<times> string option) list"

record axios_response =
  status :: nat
  data :: json

datatype ErrorCode = MethodNotFound

text \<open>
  Values that can be thrown. \<open>AxiosError response message\<close> is what axios rejects with:
  for a status outside 2xx it carries the response, for a failure of the network it
  carries none. \<open>McpError code message\<close> holds the two arguments of the constructor call.
  \<open>OtherError message\<close> is any other error object.
\<close>

datatype thrown =
    AxiosError "axios_response option" string
  | McpError ErrorCode string
  | TypeError type_error
  | OtherError string

datatype http_outcome = Resolved axios_response | Rejected thrown

text \<open>
  The process environment and the upstream service, as the handlers meet them:
  \<open>process.env.LTA_API_KEY\<close> (which may be unset) and the settlement of the promise
  that \<open>axios.get\<close> returns for a request.
\<close>

record runtime =
  LTA_API_KEY :: "string option"
  axios_get :: "http_request \<Rightarrow> http_outcome"

section \<open>Tool execution (\<open>CallToolRequestSchema\<close> handler)\<close>

record content_block =
  block_type :: string
  block_text :: string

text \<open>\<open>isError = None\<close> is a result object without the key \<open>isError\<close>.\<close>

record tool_result =
  content :: "content_block list"
  isError :: "bool option"

datatype call_outcome = Returned tool_result | Thrown thrown

text \<open>\<open>request.params\<close>: the tool name and the optional argument mapping.\<close>

record call_params =
  params_name :: string
  arguments :: "(string \<rightharpoonup> json) option"

fun isAxiosError :: "thrown \<Rightarrow> bool" where
  "isAxiosError (AxiosError response message) = True"
| "isAxiosError e = False"

text \<open>
  \<open>error.response\<close> and \<open>error.message\<close>. The handler reads them from axios errors only;
  the message of a TypeError or of an McpError object is not modelled.
\<close>

fun error_response :: "thrown \<Rightarrow> axios_response option" where
  "error_response (AxiosError response message) = response"
| "error_response e = None"

fun error_message :: "thrown \<Rightarrow> string" where
  "error_message (AxiosError response message) = message"
| "error_message (OtherError message) = message"

text \<open>\<open>data?.Message\<close>: only an object has the property; \<open>null\<close> short-circuits.\<close>

definition member_Message :: "json \<Rightarrow> json option" where
  "member_Message d = (case d of JObj kvs \<Rightarrow> map_of kvs ''Message'' | _ \<Rightarrow> None)"

text \<open>
  \<open>error.response?.data?.Message ?? error.message\<close>, interpolated into the template
  literal: the interpolation converts the value to a string, and throws when it cannot.
\<close>

definition upstream_message :: "thrown \<Rightarrow> type_error + string" where
  "upstream_message error =
     (case (case error_response error of None \<Rightarrow> None
            | Some response \<Rightarrow> member_Message (data response)) of
        None \<Rightarrow> Inr (error_message error)
      | Some JNull \<Rightarrow> Inr (error_message error)
      | Some m \<Rightarrow> ToString m)"

text \<open>
  The \<open>catch (error)\<close> clause, the same in all seven cases. A TypeError of the template
  literal is raised inside the clause and leaves the call.
\<close>

definition catch_clause :: "thrown \<Rightarrow> call_outcome" where
  "catch_clause error =
     (if isAxiosError error then
        (case upstream_message error of
           Inl e \<Rightarrow> Thrown (TypeError e)
         | Inr s \<Rightarrow>
             Returned \<lparr> content = [\<lparr> block_type = ''text'',
                                      block_text = ''LTA API error: '' @ s \<rparr>],
                        isError = Some True \<rparr>)
      else Thrown error)"

text \<open>
  The \<open>try\<close> block with its \<open>catch\<close>: one \<open>axios.get\<close> with the two fixed headers, then
  the response body pretty-printed with two spaces. The first component is the list of
  requests handed to axios.
\<close>

definition try_get ::
  "runtime \<Rightarrow> string \<Rightarrow> (string \<times> json option) list option
     \<Rightarrow> http_request list \<times> call_outcome" where
  "try_get rt u ps =
     (let req = \<lparr> req_method = GET, url = u, params = ps,
                   headers = [(''AccountKey'', LTA_API_KEY rt),
                              (''accept'', Some ''application/json'')] \<rparr>
      in ([req],
          case axios_get rt req of
            Resolved response \<Rightarrow>
              Returned \<lparr> content = [\<lparr> block_type = ''text'',
                                       block_text = JSON_stringify (data response) 2 \<rparr>],
                         isError = None \<rparr>
          | Rejected error \<Rightarrow> catch_clause error))"

text \<open>
  Destructuring \<open>request.params.arguments\<close> when it is \<open>undefined\<close> throws a TypeError
  before the \<open>try\<close> block is entered; it names the first property of the pattern.
\<close>

definition destructure_error :: "string \<Rightarrow> thrown" where
  "destructure_error p = TypeError (Cannot_destructure p)"

definition bus_arrival :: "runtime \<Rightarrow> call_params \<Rightarrow> http_request list \<times> call_outcome" where
  "bus_arrival rt p =
     (case arguments p of
        None \<Rightarrow> ([], Thrown (destructure_error ''busStopCode''))
      | Some args \<Rightarrow>
          (let busStopCode = args ''busStopCode''; serviceNo = args ''serviceNo''
           in try_get rt ''https://datamall2.mytransport.sg/ltaodataservice/v3/BusArrival''
                (Some ((''BusStopCode'', busStopCode)
                        # (if truthy serviceNo then [(''ServiceNo'', serviceNo)] else [])))))"

definition station_crowding ::
  "runtime \<Rightarrow> call_params \<Rightarrow> http_request list \<times> call_outcome" where
  "station_crowding rt p =
     (case arguments p of
        None \<Rightarrow> ([], Thrown (destructure_error ''trainLine''))
      | Some args \<Rightarrow>
          (let trainLine = args ''trainLine''
           in try_get rt ''https://datamall2.mytransport.sg/ltaodataservice/PCDRealTime''
                (Some [(''TrainLine'', trainLine)])))"

definition train_alerts :: "runtime \<Rightarrow> call_params \<Rightarrow> http_request list \<times> call_outcome" where
  "train_alerts rt p =
     try_get rt ''https://datamall2.mytransport.sg/ltaodataservice/TrainServiceAlerts'' None"

definition carpark_availability ::
  "runtime \<Rightarrow> call_params \<Rightarrow> http_request list \<times> call_outcome" where
  "carpark_availability rt p =
     try_get rt ''https://datamall2.mytransport.sg/ltaodataservice/CarParkAvailabilityv2'' None"

definition travel_times :: "runtime \<Rightarrow> call_params \<Rightarrow> http_request list \<times> call_outcome" where
  "travel_times rt p =
     try_get rt ''https://datamall2.mytransport.sg/ltaodataservice/EstTravelTimes'' None"

definition traffic_incidents ::
  "runtime \<Rightarrow> call_params \<Rightarrow> http_request list \<times> call_outcome" where
  "traffic_incidents rt p =
     try_get rt ''https://datamall2.mytransport.sg/ltaodataservice/TrafficIncidents'' None"

definition station_crowd_forecast ::
  "runtime \<Rightarrow> call_params \<Rightarrow> http_request list \<times> call_outcome" where
  "station_crowd_forecast rt p =
     (case arguments p of
        None \<Rightarrow> ([], Thrown (destructure_error ''trainLine''))
      | Some args \<Rightarrow>
          (let trainLine = args ''trainLine''
           in try_get rt ''https://datamall2.mytransport.sg/ltaodataservice/PCDForecast''
                (Some [(''TrainLine'', trainLine)])))"

text \<open>The \<open>switch (request.params.name)\<close>, with its \<open>default\<close> case.\<close>

definition CallTool :: "runtime \<Rightarrow> call_params \<Rightarrow> http_request list \<times> call_outcome" where
  "CallTool rt p =
     (if params_name p = ''bus_arrival'' then bus_arrival rt p
      else if params_name p = ''station_crowding'' then station_crowding rt p
      else if params_name p = ''train_alerts'' then train_alerts rt p
      else if params_name p = ''carpark_availability'' then carpark_availability rt p
      else if params_name p = ''travel_times'' then travel_times rt p
      else if params_name p = ''traffic_incidents'' then traffic_incidents rt p
      else if params_name p = ''station_crowd_forecast'' then station_crowd_forecast rt p
      else ([], Thrown (McpError MethodNotFound (''Unknown tool: '' @ params_name p))))"

text \<open>The list-tools handler takes no argument and reads nothing: it returns the catalog.\<close>

definition ListTools :: "runtime \<Rightarrow> tool list" where
  "ListTools rt = tools"

section \<open>Observers and example runs\<close>

text \<open>The case labels of the \<open>switch\<close>, in the order of the source.\<close>

definition tool_names :: "string list" where
  "tool_names =
     [''bus_arrival'', ''station_crowding'', ''train_alerts'', ''carpark_availability'',
      ''travel_times'', ''traffic_incidents'', ''station_crowd_forecast'']"

text \<open>The \<open>enum\<close> of a property of the tool of a given name in a catalog.\<close>

definition enum_of :: "tool list \<Rightarrow> string \<Rightarrow> string \<Rightarrow> string list option" where
  "enum_of ts n k =
     (case find (\<lambda>t. name t = n) ts of
        None \<Rightarrow> None
      | Some t \<Rightarrow>
          (case map_of (properties (inputSchema t)) k of
             None \<Rightarrow> None
           | Some ps \<Rightarrow> enum ps))"

text \<open>
  The binding of a query parameter in a request: \<open>None\<close> when the \<open>params\<close> object has no
  such key (or there is no \<open>params\<close> object), \<open>Some None\<close> when the key is bound to
  \<open>undefined\<close>.
\<close>

definition query_param :: "http_request \<Rightarrow> string \<Rightarrow> json option option" where
  "query_param r k = (case params r of None \<Rightarrow> None | Some ps \<Rightarrow> map_of ps k)"

definition param_names :: "http_request \<Rightarrow> string list" where
  "param_names r = (case params r of None \<Rightarrow> [] | Some ps \<Rightarrow> map fst ps)"

text \<open>An outcome that reports an error: an exception, or a result whose flag is set.\<close>

fun signals_error :: "call_outcome \<Rightarrow> bool" where
  "signals_error (Thrown e) = True"
| "signals_error (Returned res) = (isError res = Some True)"

text \<open>A result of one text block, with or without the flag.\<close>

definition text_result :: "string \<Rightarrow> bool option \<Rightarrow> tool_result" where
  "text_result s flag =
     \<lparr> content = [\<lparr> block_type = ''text'', block_text = s \<rparr>], isError = flag \<rparr>"

text \<open>Upstream behaviours and arguments used in the example runs.\<close>

definition upstream_ok :: "http_request \<Rightarrow> http_outcome" where
  "upstream_ok r = Resolved \<lparr> status = 200, data = JObj [(''value'', JArr [])] \<rparr>"

definition upstream_401 :: "http_request \<Rightarrow> http_outcome" where
  "upstream_401 r =
     Rejected (AxiosError
       (Some \<lparr> status = 401, data = JObj [(''Message'', JStr ''Invalid Account Key'')] \<rparr>)
       ''Request failed with status code 401'')"

definition upstream_refused :: "http_request \<Rightarrow> http_outcome" where
  "upstream_refused r = Rejected (AxiosError None ''connect ECONNREFUSED'')"

text \<open>Rejections whose \<open>Message\<close> is \<open>{"toString": 1}\<close>, \<open>null\<close>, and an array.\<close>

definition upstream_400_object :: "http_request \<Rightarrow> http_outcome" where
  "upstream_400_object r =
     Rejected (AxiosError
       (Some \<lparr> status = 400,
                data = JObj [(''Message'', JObj [(''toString'', JNum (Finite ''1''))])] \<rparr>)
       ''Request failed with status code 400'')"

definition upstream_500_null :: "http_request \<Rightarrow> http_outcome" where
  "upstream_500_null r =
     Rejected (AxiosError
       (Some \<lparr> status = 500, data = JObj [(''Message'', JNull)] \<rparr>)
       ''Request failed with status code 500'')"

definition upstream_400_list :: "http_request \<Rightarrow> http_outcome" where
  "upstream_400_list r =
     Rejected (AxiosError
       (Some \<lparr> status = 400,
                data = JObj [(''Message'',
                  JArr [JNum (Finite ''1e+21''), JNull, JBool True, JStr ''x'',
                        JArr [JStr ''y'', JNum MinusInfinity], JObj [(''valueOf'', JNull)]])] \<rparr>)
       ''Request failed with status code 400'')"

text \<open>
  A response body with nesting, fractional and large numbers, an infinity, empty
  containers and a string that needs escapes (a quotation mark, a tab, a backslash).
\<close>

definition incidents_body :: json where
  "incidents_body =
     JObj [(''odata.metadata'', JStr ''IncidentSet''),
           (''value'',
             JArr [JObj [(''Type'', JStr ''Roadwork''),
                         (''Latitude'', JNum (Finite ''1.3521'')),
                         (''Longitude'', JNum (Finite ''103.8198'')),
                         (''Message'',
                           JStr (''Roadworks on '' @ [CHR 0x22] @ ''ECP'' @ [CHR 0x22]
                                 @ [CHR 0x09, CHR 0x5C]))],
                   JArr [], JObj [], JNull, JBool True, JNum (Finite ''1e+21''),
                   JNum PlusInfinity, JNum (Finite ''-20'')])]"

definition upstream_incidents :: "http_request \<Rightarrow> http_outcome" where
  "upstream_incidents r = Resolved \<lparr> status = 200, data = incidents_body \<rparr>"

text \<open>The texts \<open>JSON.stringify(body, null, 2)\<close> gives for the two bodies, line by line.\<close>

definition value_text :: string where
  \<open>value_text =
     ''{\<newline>'' @
     ''  "value": []\<newline>'' @
     ''}''\<close>

definition incidents_text :: string where
  \<open>incidents_text =
     ''{\<newline>'' @
     ''  "odata.metadata": "IncidentSet",\<newline>'' @
     ''  "value": [\<newline>'' @
     ''    {\<newline>'' @
     ''      "Type": "Roadwork",\<newline>'' @
     ''      "Latitude": 1.3521,\<newline>'' @
     ''      "Longitude": 103.8198,\<newline>'' @
     ''      "Message": "Roadworks on '' @ [CHR 0x5C] @ ''"ECP'' @ [CHR 0x5C] @ ''"''
                 @ [CHR 0x5C] @ ''t'' @ [CHR 0x5C, CHR 0x5C] @ ''"\<newline>'' @
     ''    },\<newline>'' @
     ''    [],\<newline>'' @
     ''    {},\<newline>'' @
     ''    null,\<newline>'' @
     ''    true,\<newline>'' @
     ''    1e+21,\<newline>'' @
     ''    null,\<newline>'' @
     ''    -20\<newline>'' @
     ''  ]\<newline>'' @
     ''}''\<close>

definition upstream_defect :: "http_request \<Rightarrow> http_outcome" where
  "upstream_defect r = Rejected (OtherError ''unexpected'')"

definition test_runtime :: "(http_request \<Rightarrow> http_outcome) \<Rightarrow> runtime" where
  "test_runtime up = \<lparr> LTA_API_KEY = Some ''test-key'', axios_get = up \<rparr>"

definition call :: "string \<Rightarrow> (string \<rightharpoonup> json) option \<Rightarrow> call_params" where
  "call n a = \<lparr> params_name = n, arguments = a \<rparr>"

definition no_args :: "string \<rightharpoonup> json" where
  "no_args = Map.empty"

definition args_stop :: "string \<rightharpoonup> json" where
  "args_stop = [''busStopCode'' \<mapsto> JStr ''83139'']"

definition args_stop_service :: "string \<rightharpoonup> json" where
  "args_stop_service = [''busStopCode'' \<mapsto> JStr ''83139'', ''serviceNo'' \<mapsto> JStr ''15'']"

definition args_stop_blank_service :: "string \<rightharpoonup> json" where
  "args_stop_blank_service = [''busStopCode'' \<mapsto> JStr ''83139'', ''serviceNo'' \<mapsto> JStr []]"

definition args_other_stop_blank_service :: "string \<rightharpoonup> json" where
  "args_other_stop_blank_service =
     [''busStopCode'' \<mapsto> JStr ''01012'', ''serviceNo'' \<mapsto> JStr []]"

definition test_headers :: "(string \<times> string option) list" where
  "test_headers = [(''AccountKey'', Some ''test-key''), (''accept'', Some ''application/json'')]"

definition get_request :: "string \<Rightarrow> (string \<times> json option) list option \<Rightarrow> http_request" where
  "get_request u ps = \<lparr> req_method = GET, url = u, params = ps, headers = test_headers \<rparr>"

section \<open>Properties shared by the seven cases\<close>

lemmas handler_defs =
  bus_arrival_def station_crowding_def train_alerts_def carpark_availability_def
  travel_times_def traffic_incidents_def station_crowd_forecast_def

lemma try_get_requests:
  "fst (try_get rt u ps) =
     [\<lparr> req_method = GET, url = u, params = ps,
        headers = [(''AccountKey'', LTA_API_KEY rt), (''accept'', Some ''application/json'')] \<rparr>]"
  by (simp add: try_get_def Let_def)

lemma try_get_resolved:
  assumes "fst (try_get rt u ps) = [r]" and "axios_get rt r = Resolved response"
  shows "snd (try_get rt u ps) = Returned (text_result (JSON_stringify (data response) 2) None)"
  using assms by (simp add: try_get_def Let_def text_result_def)

lemma try_get_rejected:
  assumes "fst (try_get rt u ps) = [r]" and "axios_get rt r = Rejected e"
  shows "snd (try_get rt u ps) = catch_clause e"
  using assms by (simp add: try_get_def Let_def)

lemma destructure_error_not_axios: "\<not> isAxiosError (destructure_error k)"
  by (simp add: destructure_error_def)

text \<open>
  Every call either stops before the \<open>try\<close> block with an exception that is no axios
  error, or is one run of the \<open>try\<close> block.
\<close>

lemma CallTool_shape:
  "(fst (CallTool rt p) = [] \<and> (\<exists>e. snd (CallTool rt p) = Thrown e \<and> \<not> isAxiosError e))
   \<or> (\<exists>u ps. CallTool rt p = try_get rt u ps)"
  unfolding CallTool_def handler_defs
  by (cases "arguments p") (auto simp: destructure_error_not_axios Let_def)

lemma CallTool_resolved:
  assumes "fst (CallTool rt p) = [r]" and "axios_get rt r = Resolved response"
  shows "snd (CallTool rt p) = Returned (text_result (JSON_stringify (data response) 2) None)"
  using CallTool_shape [of rt p] assms by (auto simp: try_get_resolved)

lemma CallTool_rejected:
  assumes "fst (CallTool rt p) = [r]" and "axios_get rt r = Rejected e"
  shows "snd (CallTool rt p) = catch_clause e"
  using CallTool_shape [of rt p] assms by (auto simp: try_get_rejected)

lemma catch_clause_flagged:
  assumes "catch_clause e = Returned res"
  shows "isAxiosError e \<and>
    (\<exists>s. upstream_message e = Inr s \<and> res = text_result (''LTA API error: '' @ s) (Some True))"
  using assms by (auto simp: catch_clause_def text_result_def split: if_splits sum.splits)

lemma catch_clause_thrown:
  assumes "catch_clause e = Thrown e'"
  shows "\<not> isAxiosError e'"
  using assms by (auto simp: catch_clause_def split: if_splits sum.splits)

lemma catch_clause_converts:
  assumes "isAxiosError e" and "upstream_message e = Inr s"
  shows "catch_clause e = Returned (text_result (''LTA API error: '' @ s) (Some True))"
  using assms by (simp add: catch_clause_def text_result_def)

lemma CallTool_returned:
  assumes "snd (CallTool rt p) = Returned res"
  shows "\<exists>r. fst (CallTool rt p) = [r] \<and>
           ((\<exists>response. axios_get rt r = Resolved response \<and> isError res = None) \<or>
            (\<exists>e. axios_get rt r = Rejected e \<and> isAxiosError e \<and> isError res = Some True))"
proof -
  from CallTool_shape [of rt p] assms obtain u ps where c: "CallTool rt p = try_get rt u ps"
    by auto
  obtain r where r: "fst (CallTool rt p) = [r]"
    by (simp add: c try_get_requests)
  show ?thesis
  proof (cases "axios_get rt r")
    case (Resolved response)
    with assms r CallTool_resolved [OF r Resolved] show ?thesis
      by (auto simp: text_result_def)
  next
    case (Rejected e)
    with assms r CallTool_rejected [OF r Rejected] catch_clause_flagged [of e res] show ?thesis
      by (auto simp: text_result_def)
  qed
qed

section \<open>The catalog\<close>

text \<open>
  C5. The list-tools operation returns exactly seven descriptors, in the order
  bus_arrival, station_crowding, train_alerts, carpark_availability, travel_times,
  traffic_incidents, station_crowd_forecast; their names are pairwise different; the
  \<open>enum\<close> of \<open>trainLine\<close> of station_crowding and of station_crowd_forecast is exactly the
  eleven line codes; and the result is the same under any two runtime configurations.
\<close>

theorem list_tools_catalog:
  "length (ListTools rt) = 7
   \<and> map name (ListTools rt) =
       [''bus_arrival'', ''station_crowding'', ''train_alerts'', ''carpark_availability'',
        ''travel_times'', ''traffic_incidents'', ''station_crowd_forecast'']
   \<and> distinct (map name (ListTools rt))
   \<and> enum_of (ListTools rt) ''station_crowding'' ''trainLine'' =
       Some [''CCL'', ''CEL'', ''CGL'', ''DTL'', ''EWL'', ''NEL'', ''NSL'', ''BPL'', ''SLRT'',
             ''PLRT'', ''TEL'']
   \<and> enum_of (ListTools rt) ''station_crowd_forecast'' ''trainLine'' =
       Some [''CCL'', ''CEL'', ''CGL'', ''DTL'', ''EWL'', ''NEL'', ''NSL'', ''BPL'', ''SLRT'',
             ''PLRT'', ''TEL'']
   \<and> ListTools rt = ListTools rt'"
  by (simp add: ListTools_def tools_def enum_of_def trainLine_property_def train_lines_def)

section \<open>Routing\<close>

text \<open>
  C2. A call whose tool name is none of the seven case labels throws
  \<open>McpError(MethodNotFound, "Unknown tool: " + name)\<close>: the message contains the name,
  no request is issued (no handler is reached) and no result is returned.
\<close>

theorem unknown_tool_method_not_found:
  assumes "params_name p \<notin> set tool_names"
  shows "\<exists>m. CallTool rt p = ([], Thrown (McpError MethodNotFound m))
           \<and> m = ''Unknown tool: '' @ params_name p
           \<and> sublist (params_name p) m
           \<and> \<not> (\<exists>res. snd (CallTool rt p) = Returned res)"
proof -
  have c: "CallTool rt p =
      ([], Thrown (McpError MethodNotFound (''Unknown tool: '' @ params_name p)))"
    using assms by (simp add: CallTool_def tool_names_def)
  have s: "sublist (params_name p) (''Unknown tool: '' @ params_name p)"
    by (rule sublist_append_leftI)
  have n: "\<not> (\<exists>res. snd (CallTool rt p) = Returned res)"
    by (simp add: c)
  from c s n show ?thesis by blast
qed

theorem unknown_tool_method_not_found_witness:
  "''not_a_tool'' \<notin> set tool_names
   \<and> CallTool (test_runtime upstream_ok) (call ''not_a_tool'' (Some no_args)) =
       ([], Thrown (McpError MethodNotFound ''Unknown tool: not_a_tool''))
   \<and> sublist ''not_a_tool'' ''Unknown tool: not_a_tool''"
proof -
  have h: "params_name (call ''not_a_tool'' (Some no_args)) \<notin> set tool_names"
    by (simp add: call_def tool_names_def)
  from unknown_tool_method_not_found [OF h, of "test_runtime upstream_ok"] h
  show ?thesis by (auto simp: call_def)
qed

section \<open>Upstream failures\<close>

lemmas example_defs =
  CallTool_def handler_defs try_get_def catch_clause_def upstream_message_def
  member_Message_def text_result_def test_runtime_def call_def get_request_def
  test_headers_def Let_def

text \<open>
  C1, as the claim states it, fails in two ways. An axios failure whose body is
  \<open>{"Message": {"toString": 1}}\<close> gives no flagged result: the template literal of the
  \<open>catch\<close> clause cannot convert the object and its TypeError leaves the call. And a
  \<open>Message\<close> that is present with the value \<open>null\<close> is not what follows the prefix: the
  message of the axios error is.
\<close>

theorem unconvertible_Message_counterexample:
  "axios_get (test_runtime upstream_400_object)
       (get_request ''https://datamall2.mytransport.sg/ltaodataservice/TrainServiceAlerts'' None) =
     Rejected (AxiosError
       (Some \<lparr> status = 400,
                data = JObj [(''Message'', JObj [(''toString'', JNum (Finite ''1''))])] \<rparr>)
       ''Request failed with status code 400'')
   \<and> CallTool (test_runtime upstream_400_object) (call ''train_alerts'' None) =
       ([get_request ''https://datamall2.mytransport.sg/ltaodataservice/TrainServiceAlerts'' None],
        Thrown (TypeError Not_primitive))
   \<and> axios_get (test_runtime upstream_500_null)
       (get_request ''https://datamall2.mytransport.sg/ltaodataservice/TrainServiceAlerts'' None) =
     Rejected (AxiosError
       (Some \<lparr> status = 500, data = JObj [(''Message'', JNull)] \<rparr>)
       ''Request failed with status code 500'')
   \<and> snd (CallTool (test_runtime upstream_500_null) (call ''train_alerts'' None)) =
       Returned (text_result ''LTA API error: Request failed with status code 500'' (Some True))"
  by (simp add: example_defs upstream_400_object_def upstream_500_null_def)

text \<open>
  C1, amended. Whenever the request a call issued is rejected by axios with an axios
  error (a status outside 2xx, which carries the response, or a failure of the network,
  which carries none) and the \<open>Message\<close> property of the response body is absent, \<open>null\<close>,
  or a value that a template literal converts to a string (every string, number and
  boolean), the call returns (it does not throw) a result with \<open>isError: true\<close> and one
  text block. The text is \<open>LTA API error: \<close> followed by the converted \<open>Message\<close> when it
  is present and not \<open>null\<close>, and by the message of the axios error otherwise. A \<open>Message\<close>
  that is a string follows as it is.
\<close>

theorem axios_failure_flagged_when_Message_converts:
  assumes "fst (CallTool rt p) = [r]"
    and "axios_get rt r = Rejected (AxiosError response message)"
  shows "(response = None \<longrightarrow>
            snd (CallTool rt p) =
              Returned (text_result (''LTA API error: '' @ message) (Some True)))
    \<and> (\<forall>resp. response = Some resp \<and> member_Message (data resp) = None \<longrightarrow>
          snd (CallTool rt p) =
            Returned (text_result (''LTA API error: '' @ message) (Some True)))
    \<and> (\<forall>resp. response = Some resp \<and> member_Message (data resp) = Some JNull \<longrightarrow>
          snd (CallTool rt p) =
            Returned (text_result (''LTA API error: '' @ message) (Some True)))
    \<and> (\<forall>resp m s. response = Some resp \<and> member_Message (data resp) = Some m \<and> m \<noteq> JNull
            \<and> ToString m = Inr s \<longrightarrow>
          snd (CallTool rt p) =
            Returned (text_result (''LTA API error: '' @ s) (Some True)))
    \<and> (\<forall>resp kvs s. response = Some resp \<and> data resp = JObj kvs
            \<and> map_of kvs ''Message'' = Some (JStr s) \<longrightarrow>
          snd (CallTool rt p) =
            Returned (text_result (''LTA API error: '' @ s) (Some True)))
    \<and> (\<forall>resp kvs n. response = Some resp \<and> data resp = JObj kvs
            \<and> map_of kvs ''Message'' = Some (JNum n) \<longrightarrow>
          snd (CallTool rt p) =
            Returned (text_result (''LTA API error: '' @ Number_toString n) (Some True)))
    \<and> (\<forall>resp kvs b. response = Some resp \<and> data resp = JObj kvs
            \<and> map_of kvs ''Message'' = Some (JBool b) \<longrightarrow>
          snd (CallTool rt p) =
            Returned (text_result (''LTA API error: '' @ (if b then ''true'' else ''false''))
              (Some True)))"
proof -
  let ?e = "AxiosError response message"
  have c: "snd (CallTool rt p) = catch_clause ?e"
    using assms by (rule CallTool_rejected)
  have ax: "isAxiosError ?e"
    by simp
  have flagged: "snd (CallTool rt p) =
      Returned (text_result (''LTA API error: '' @ s) (Some True))"
    if "upstream_message ?e = Inr s" for s
    using catch_clause_converts [OF ax that] c by simp
  have a1: "response = None \<longrightarrow>
      snd (CallTool rt p) = Returned (text_result (''LTA API error: '' @ message) (Some True))"
    by (intro allI impI flagged) (auto simp: upstream_message_def)
  have a2: "\<forall>resp. response = Some resp \<and> member_Message (data resp) = None \<longrightarrow>
      snd (CallTool rt p) = Returned (text_result (''LTA API error: '' @ message) (Some True))"
    by (intro allI impI flagged) (auto simp: upstream_message_def)
  have a3: "\<forall>resp. response = Some resp \<and> member_Message (data resp) = Some JNull \<longrightarrow>
      snd (CallTool rt p) = Returned (text_result (''LTA API error: '' @ message) (Some True))"
    by (intro allI impI flagged) (auto simp: upstream_message_def)
  have a4: "\<forall>resp m s. response = Some resp \<and> member_Message (data resp) = Some m \<and> m \<noteq> JNull
        \<and> ToString m = Inr s \<longrightarrow>
      snd (CallTool rt p) = Returned (text_result (''LTA API error: '' @ s) (Some True))"
  proof (intro allI impI)
    fix resp m s
    assume h: "response = Some resp \<and> member_Message (data resp) = Some m \<and> m \<noteq> JNull
        \<and> ToString m = Inr s"
    then have "upstream_message ?e = Inr s"
      by (cases m) (simp_all add: upstream_message_def)
    then show "snd (CallTool rt p) =
        Returned (text_result (''LTA API error: '' @ s) (Some True))"
      by (rule flagged)
  qed
  have a5: "\<forall>resp kvs s. response = Some resp \<and> data resp = JObj kvs
        \<and> map_of kvs ''Message'' = Some (JStr s) \<longrightarrow>
      snd (CallTool rt p) = Returned (text_result (''LTA API error: '' @ s) (Some True))"
    by (intro allI impI flagged) (auto simp: upstream_message_def member_Message_def)
  have a6: "\<forall>resp kvs n. response = Some resp \<and> data resp = JObj kvs
        \<and> map_of kvs ''Message'' = Some (JNum n) \<longrightarrow>
      snd (CallTool rt p) =
        Returned (text_result (''LTA API error: '' @ Number_toString n) (Some True))"
    by (intro allI impI flagged) (auto simp: upstream_message_def member_Message_def)
  have a7: "\<forall>resp kvs b. response = Some resp \<and> data resp = JObj kvs
        \<and> map_of kvs ''Message'' = Some (JBool b) \<longrightarrow>
      snd (CallTool rt p) =
        Returned (text_result (''LTA API error: '' @ (if b then ''true'' else ''false''))
          (Some True))"
    by (intro allI impI flagged) (auto simp: upstream_message_def member_Message_def)
  show ?thesis
    by (intro conjI) (rule a1 a2 a3 a4 a5 a6 a7)+
qed

theorem axios_failure_flagged_when_Message_converts_witness:
  "fst (CallTool (test_runtime upstream_401) (call ''bus_arrival'' (Some args_stop))) =
     [get_request ''https://datamall2.mytransport.sg/ltaodataservice/v3/BusArrival''
        (Some [(''BusStopCode'', Some (JStr ''83139''))])]
   \<and> axios_get (test_runtime upstream_401)
        (get_request ''https://datamall2.mytransport.sg/ltaodataservice/v3/BusArrival''
           (Some [(''BusStopCode'', Some (JStr ''83139''))])) =
       Rejected (AxiosError
         (Some \<lparr> status = 401, data = JObj [(''Message'', JStr ''Invalid Account Key'')] \<rparr>)
         ''Request failed with status code 401'')
   \<and> snd (CallTool (test_runtime upstream_401) (call ''bus_arrival'' (Some args_stop))) =
       Returned (text_result ''LTA API error: Invalid Account Key'' (Some True))
   \<and> map (\<lambda>n. snd (CallTool (test_runtime upstream_401) (call n (Some no_args)))) tool_names =
       replicate 7 (Returned (text_result ''LTA API error: Invalid Account Key'' (Some True)))
   \<and> snd (CallTool (test_runtime upstream_refused) (call ''train_alerts'' None)) =
       Returned (text_result ''LTA API error: connect ECONNREFUSED'' (Some True))
   \<and> snd (CallTool (test_runtime upstream_400_list) (call ''train_alerts'' None)) =
       Returned (text_result ''LTA API error: 1e+21,,true,x,y,-Infinity,[object Object]''
         (Some True))"
proof -
  let ?rt = "test_runtime upstream_401"
  let ?p = "call ''bus_arrival'' (Some args_stop)"
  let ?r = "get_request ''https://datamall2.mytransport.sg/ltaodataservice/v3/BusArrival''
              (Some [(''BusStopCode'', Some (JStr ''83139''))])"
  let ?resp = "\<lparr> status = 401, data = JObj [(''Message'', JStr ''Invalid Account Key'')] \<rparr>"
  have h1: "fst (CallTool ?rt ?p) = [?r]"
    by (simp add: example_defs args_stop_def)
  have h2: "axios_get ?rt ?r =
      Rejected (AxiosError (Some ?resp) ''Request failed with status code 401'')"
    by (simp add: test_runtime_def upstream_401_def)
  from axios_failure_flagged_when_Message_converts [OF h1 h2]
  have "\<forall>resp kvs s. Some ?resp = Some resp \<and> data resp = JObj kvs
      \<and> map_of kvs ''Message'' = Some (JStr s) \<longrightarrow>
    snd (CallTool ?rt ?p) = Returned (text_result (''LTA API error: '' @ s) (Some True))"
    by (elim conjE)
  then have c3: "snd (CallTool ?rt ?p) =
      Returned (text_result ''LTA API error: Invalid Account Key'' (Some True))"
    by simp
  have c4: "map (\<lambda>n. snd (CallTool ?rt (call n (Some no_args)))) tool_names =
      replicate 7 (Returned (text_result ''LTA API error: Invalid Account Key'' (Some True)))"
    by (simp add: tool_names_def example_defs upstream_401_def no_args_def numeral_eq_Suc)
  have c5: "snd (CallTool (test_runtime upstream_refused) (call ''train_alerts'' None)) =
      Returned (text_result ''LTA API error: connect ECONNREFUSED'' (Some True))"
    by (simp add: example_defs upstream_refused_def)
  have c6: "snd (CallTool (test_runtime upstream_400_list) (call ''train_alerts'' None)) =
      Returned (text_result ''LTA API error: 1e+21,,true,x,y,-Infinity,[object Object]''
        (Some True))"
    by (simp add: example_defs upstream_400_list_def)
  show ?thesis
    by (intro conjI) (rule h1 h2 c3 c4 c5 c6)+
qed

section \<open>Upstream success\<close>

text \<open>
  C7. Whenever the request a call issued is resolved by axios (a 2xx response), the call
  returns a result whose content is exactly one text block, whose text is
  \<open>JSON.stringify(response.data, null, 2)\<close>, and which has no \<open>isError\<close> key. A returned
  result has the key only when the request was rejected.
\<close>

theorem success_is_one_pretty_printed_text_block:
  "(\<forall>r response. fst (CallTool rt p) = [r] \<and> axios_get rt r = Resolved response \<longrightarrow>
      snd (CallTool rt p) =
        Returned \<lparr> content = [\<lparr> block_type = ''text'',
                                 block_text = JSON_stringify (data response) 2 \<rparr>],
                   isError = None \<rparr>)
   \<and> (\<forall>res. snd (CallTool rt p) = Returned res \<and> isError res \<noteq> None \<longrightarrow>
        (\<exists>r e. fst (CallTool rt p) = [r] \<and> axios_get rt r = Rejected e))"
proof (intro conjI allI impI)
  fix r response
  assume "fst (CallTool rt p) = [r] \<and> axios_get rt r = Resolved response"
  then show "snd (CallTool rt p) =
      Returned \<lparr> content = [\<lparr> block_type = ''text'',
                               block_text = JSON_stringify (data response) 2 \<rparr>],
                 isError = None \<rparr>"
    using CallTool_resolved [of rt p r response] by (simp add: text_result_def)
next
  fix res
  assume "snd (CallTool rt p) = Returned res \<and> isError res \<noteq> None"
  then show "\<exists>r e. fst (CallTool rt p) = [r] \<and> axios_get rt r = Rejected e"
    using CallTool_returned [of rt p res] by auto
qed

theorem success_is_one_pretty_printed_text_block_witness:
  "fst (CallTool (test_runtime upstream_incidents) (call ''traffic_incidents'' None)) =
     [get_request ''https://datamall2.mytransport.sg/ltaodataservice/TrafficIncidents'' None]
   \<and> axios_get (test_runtime upstream_incidents)
        (get_request ''https://datamall2.mytransport.sg/ltaodataservice/TrafficIncidents'' None) =
       Resolved \<lparr> status = 200, data = incidents_body \<rparr>
   \<and> snd (CallTool (test_runtime upstream_incidents) (call ''traffic_incidents'' None)) =
       Returned \<lparr> content = [\<lparr> block_type = ''text'', block_text = incidents_text \<rparr>],
                  isError = None \<rparr>
   \<and> map (\<lambda>n. snd (CallTool (test_runtime upstream_ok) (call n (Some no_args)))) tool_names =
       replicate 7
         (Returned \<lparr> content = [\<lparr> block_type = ''text'', block_text = value_text \<rparr>],
                     isError = None \<rparr>)
   \<and> JSON_stringify (JStr [CHR 0x08, CHR 0x0A, CHR 0x0C, CHR 0x0D, CHR 0x1F, CHR ''/'']) 2 =
       [CHR 0x22, CHR 0x5C, CHR ''b'', CHR 0x5C, CHR ''n'', CHR 0x5C, CHR ''f'', CHR 0x5C, CHR ''r'',
        CHR 0x5C, CHR ''u'', CHR ''0'', CHR ''0'', CHR ''1'', CHR ''f'', CHR ''/'', CHR 0x22]"
proof -
  let ?rt = "test_runtime upstream_incidents"
  let ?p = "call ''traffic_incidents'' None"
  let ?r = "get_request ''https://datamall2.mytransport.sg/ltaodataservice/TrafficIncidents'' None"
  let ?resp = "\<lparr> status = 200, data = incidents_body \<rparr>"
  have h1: "fst (CallTool ?rt ?p) = [?r]"
    by (simp add: example_defs)
  have h2: "axios_get ?rt ?r = Resolved ?resp"
    by (simp add: test_runtime_def upstream_incidents_def)
  have s: "JSON_stringify incidents_body 2 = incidents_text"
    by (simp add: JSON_stringify_def QuoteJSONString_def quote_char_def numeral_eq_Suc
          incidents_body_def incidents_text_def)
  have v: "JSON_stringify (JObj [(''value'', JArr [])]) 2 = value_text"
    by (simp add: JSON_stringify_def QuoteJSONString_def quote_char_def numeral_eq_Suc
          value_text_def)
  note t = success_is_one_pretty_printed_text_block
    [of ?rt ?p, THEN conjunct1, THEN spec, THEN spec, THEN mp]
  have "snd (CallTool ?rt ?p) =
      Returned \<lparr> content = [\<lparr> block_type = ''text'',
                               block_text = JSON_stringify (data ?resp) 2 \<rparr>],
                 isError = None \<rparr>"
    by (rule t) (rule conjI h1 h2)+
  then have c3: "snd (CallTool ?rt ?p) =
      Returned \<lparr> content = [\<lparr> block_type = ''text'', block_text = incidents_text \<rparr>],
                 isError = None \<rparr>"
    using s by simp
  have "map (\<lambda>n. snd (CallTool (test_runtime upstream_ok) (call n (Some no_args)))) tool_names =
      replicate 7
        (Returned \<lparr> content = [\<lparr> block_type = ''text'',
                                  block_text = JSON_stringify (JObj [(''value'', JArr [])]) 2 \<rparr>],
                    isError = None \<rparr>)"
    by (simp add: tool_names_def example_defs upstream_ok_def no_args_def numeral_eq_Suc
          del: replicate.simps) (simp add: numeral_eq_Suc)
  then have c4: "map (\<lambda>n. snd (CallTool (test_runtime upstream_ok) (call n (Some no_args))))
        tool_names =
      replicate 7
        (Returned \<lparr> content = [\<lparr> block_type = ''text'', block_text = value_text \<rparr>],
                    isError = None \<rparr>)"
    using v by simp
  have c5: "JSON_stringify (JStr [CHR 0x08, CHR 0x0A, CHR 0x0C, CHR 0x0D, CHR 0x1F, CHR ''/'']) 2 =
      [CHR 0x22, CHR 0x5C, CHR ''b'', CHR 0x5C, CHR ''n'', CHR 0x5C, CHR ''f'', CHR 0x5C, CHR ''r'',
       CHR 0x5C, CHR ''u'', CHR ''0'', CHR ''0'', CHR ''1'', CHR ''f'', CHR ''/'', CHR 0x22]"
    by (simp add: JSON_stringify_def QuoteJSONString_def quote_char_def hex_digit_def)
  show ?thesis
    by (intro conjI) (rule h1 h2 c3 c4 c5)+
qed

section \<open>Tools without arguments\<close>

text \<open>
  C6. For train_alerts, carpark_availability, travel_times and traffic_incidents, with
  any argument mapping (empty and absent included), exactly one request is issued, its
  configuration has no \<open>params\<close> object, and when it is resolved the call returns the
  successful result.
\<close>

theorem no_argument_tools_send_no_parameters:
  assumes "params_name p \<in>
      {''train_alerts'', ''carpark_availability'', ''travel_times'', ''traffic_incidents''}"
  shows "\<exists>r. fst (CallTool rt p) = [r] \<and> params r = None \<and> param_names r = []
           \<and> (\<forall>response. axios_get rt r = Resolved response \<longrightarrow>
                 snd (CallTool rt p) =
                   Returned (text_result (JSON_stringify (data response) 2) None))"
proof -
  from assms obtain u where c: "CallTool rt p = try_get rt u None"
    by (auto simp: CallTool_def handler_defs)
  obtain r where r: "fst (try_get rt u None) = [r]" and n: "params r = None"
    by (simp add: try_get_requests)
  from n have "param_names r = []"
    by (simp add: param_names_def)
  moreover have "\<forall>response. axios_get rt r = Resolved response \<longrightarrow>
      snd (try_get rt u None) = Returned (text_result (JSON_stringify (data response) 2) None)"
    using try_get_resolved [OF r] by blast
  ultimately show ?thesis
    using c r n by auto
qed

theorem no_argument_tools_send_no_parameters_witness:
  "''train_alerts'' \<in>
      {''train_alerts'', ''carpark_availability'', ''travel_times'', ''traffic_incidents''}
   \<and> map params (fst (CallTool (test_runtime upstream_ok) (call ''train_alerts'' None))) = [None]
   \<and> map (\<lambda>n. map params (fst (CallTool (test_runtime upstream_ok) (call n None))))
        [''train_alerts'', ''carpark_availability'', ''travel_times'', ''traffic_incidents''] =
       replicate 4 [None]
   \<and> map (\<lambda>n. map params (fst (CallTool (test_runtime upstream_ok) (call n (Some no_args)))))
        [''train_alerts'', ''carpark_availability'', ''travel_times'', ''traffic_incidents''] =
       replicate 4 [None]
   \<and> map (\<lambda>n. snd (CallTool (test_runtime upstream_ok) (call n None)))
        [''train_alerts'', ''carpark_availability'', ''travel_times'', ''traffic_incidents''] =
       replicate 4 (Returned (text_result (JSON_stringify (JObj [(''value'', JArr [])]) 2) None))"
proof -
  let ?rt = "test_runtime upstream_ok"
  let ?p = "call ''train_alerts'' None"
  have h: "params_name ?p \<in>
      {''train_alerts'', ''carpark_availability'', ''travel_times'', ''traffic_incidents''}"
    by (simp add: call_def)
  from no_argument_tools_send_no_parameters [OF h, of ?rt]
  have c0: "map params (fst (CallTool ?rt ?p)) = [None]"
    by auto
  have c1: "''train_alerts'' \<in>
      {''train_alerts'', ''carpark_availability'', ''travel_times'', ''traffic_incidents''}"
    by simp
  have c2: "map (\<lambda>n. map params (fst (CallTool ?rt (call n None))))
        [''train_alerts'', ''carpark_availability'', ''travel_times'', ''traffic_incidents''] =
       replicate 4 [None]"
    by (simp add: example_defs numeral_eq_Suc)
  have c3: "map (\<lambda>n. map params (fst (CallTool ?rt (call n (Some no_args)))))
        [''train_alerts'', ''carpark_availability'', ''travel_times'', ''traffic_incidents''] =
       replicate 4 [None]"
    by (simp add: example_defs numeral_eq_Suc)
  have c4: "map (\<lambda>n. snd (CallTool ?rt (call n None)))
        [''train_alerts'', ''carpark_availability'', ''travel_times'', ''traffic_incidents''] =
       replicate 4 (Returned (text_result (JSON_stringify (JObj [(''value'', JArr [])]) 2) None))"
    by (simp add: example_defs upstream_ok_def numeral_eq_Suc del: replicate.simps)
       (simp add: numeral_eq_Suc)
  show ?thesis
    by (intro conjI) (rule c0 c1 c2 c3 c4)+
qed

section \<open>The two error channels\<close>

text \<open>
  C9. A failure that is not an axios error leaves the call as a thrown exception: when
  the request is rejected with a value that \<open>axios.isAxiosError\<close> does not accept, that
  value is thrown again; when the argument mapping of a tool that destructures it is
  absent, the call throws before any request. A result with the \<open>isError\<close> key is
  returned only when the request was rejected with an axios error, and an exception that
  leaves the call is never an axios error.
\<close>

theorem other_failures_are_thrown:
  "(\<forall>r e. fst (CallTool rt p) = [r] \<and> axios_get rt r = Rejected e \<and> \<not> isAxiosError e \<longrightarrow>
      snd (CallTool rt p) = Thrown e)
   \<and> (arguments p = None
        \<and> params_name p \<in> {''bus_arrival'', ''station_crowding'', ''station_crowd_forecast''} \<longrightarrow>
        fst (CallTool rt p) = [] \<and> (\<exists>e. snd (CallTool rt p) = Thrown e \<and> \<not> isAxiosError e))
   \<and> (\<forall>res. snd (CallTool rt p) = Returned res \<and> isError res \<noteq> None \<longrightarrow>
        (\<exists>r e. fst (CallTool rt p) = [r] \<and> axios_get rt r = Rejected e \<and> isAxiosError e))
   \<and> (\<forall>e. snd (CallTool rt p) = Thrown e \<longrightarrow> \<not> isAxiosError e)"
proof (intro conjI allI impI)
  fix r e
  assume "fst (CallTool rt p) = [r] \<and> axios_get rt r = Rejected e \<and> \<not> isAxiosError e"
  then show "snd (CallTool rt p) = Thrown e"
    using CallTool_rejected [of rt p r e] by (simp add: catch_clause_def)
next
  assume a: "arguments p = None
      \<and> params_name p \<in> {''bus_arrival'', ''station_crowding'', ''station_crowd_forecast''}"
  then show "fst (CallTool rt p) = []"
    by (auto simp: CallTool_def handler_defs)
  from a show "\<exists>e. snd (CallTool rt p) = Thrown e \<and> \<not> isAxiosError e"
    by (auto simp: CallTool_def handler_defs destructure_error_not_axios)
next
  fix res
  assume "snd (CallTool rt p) = Returned res \<and> isError res \<noteq> None"
  then show "\<exists>r e. fst (CallTool rt p) = [r] \<and> axios_get rt r = Rejected e \<and> isAxiosError e"
    using CallTool_returned [of rt p res] by auto
next
  fix e
  assume t: "snd (CallTool rt p) = Thrown e"
  from CallTool_shape [of rt p] show "\<not> isAxiosError e"
  proof
    assume "fst (CallTool rt p) = [] \<and> (\<exists>e. snd (CallTool rt p) = Thrown e \<and> \<not> isAxiosError e)"
    with t show ?thesis by auto
  next
    assume "\<exists>u ps. CallTool rt p = try_get rt u ps"
    then obtain u ps where c: "CallTool rt p = try_get rt u ps"
      by blast
    obtain r where r: "fst (try_get rt u ps) = [r]"
      by (simp add: try_get_requests)
    show ?thesis
    proof (cases "axios_get rt r")
      case (Resolved response)
      with t c try_get_resolved [OF r Resolved] show ?thesis by simp
    next
      case (Rejected e')
      with t c try_get_rejected [OF r Rejected] show ?thesis
        by (auto dest: catch_clause_thrown)
    qed
  qed
qed

theorem other_failures_are_thrown_witness:
  "fst (CallTool (test_runtime upstream_defect) (call ''travel_times'' None)) =
     [get_request ''https://datamall2.mytransport.sg/ltaodataservice/EstTravelTimes'' None]
   \<and> axios_get (test_runtime upstream_defect)
        (get_request ''https://datamall2.mytransport.sg/ltaodataservice/EstTravelTimes'' None) =
       Rejected (OtherError ''unexpected'')
   \<and> \<not> isAxiosError (OtherError ''unexpected'')
   \<and> snd (CallTool (test_runtime upstream_defect) (call ''travel_times'' None)) =
       Thrown (OtherError ''unexpected'')
   \<and> CallTool (test_runtime upstream_ok) (call ''bus_arrival'' None) =
       ([], Thrown (destructure_error ''busStopCode''))
   \<and> CallTool (test_runtime upstream_ok) (call ''station_crowding'' None) =
       ([], Thrown (destructure_error ''trainLine''))
   \<and> CallTool (test_runtime upstream_ok) (call ''station_crowd_forecast'' None) =
       ([], Thrown (destructure_error ''trainLine''))
   \<and> isError (text_result ''LTA API error: Invalid Account Key'' (Some True)) \<noteq> None
   \<and> snd (CallTool (test_runtime upstream_401) (call ''travel_times'' None)) =
       Returned (text_result ''LTA API error: Invalid Account Key'' (Some True))"
proof -
  let ?rt = "test_runtime upstream_defect"
  let ?p = "call ''travel_times'' None"
  let ?r = "get_request ''https://datamall2.mytransport.sg/ltaodataservice/EstTravelTimes'' None"
  have h1: "fst (CallTool ?rt ?p) = [?r]"
    by (simp add: example_defs)
  have h2: "axios_get ?rt ?r = Rejected (OtherError ''unexpected'')"
    by (simp add: test_runtime_def upstream_defect_def)
  have h3: "\<not> isAxiosError (OtherError ''unexpected'')"
    by simp
  note t = other_failures_are_thrown [of ?rt ?p, THEN conjunct1, THEN spec, THEN spec, THEN mp]
  have c4: "snd (CallTool ?rt ?p) = Thrown (OtherError ''unexpected'')"
    by (rule t) (rule conjI h1 h2 h3)+
  have c5: "CallTool (test_runtime upstream_ok) (call ''bus_arrival'' None) =
      ([], Thrown (destructure_error ''busStopCode''))"
    by (simp add: example_defs)
  have c6: "CallTool (test_runtime upstream_ok) (call ''station_crowding'' None) =
      ([], Thrown (destructure_error ''trainLine''))"
    by (simp add: example_defs)
  have c7: "CallTool (test_runtime upstream_ok) (call ''station_crowd_forecast'' None) =
      ([], Thrown (destructure_error ''trainLine''))"
    by (simp add: example_defs)
  have c8: "isError (text_result ''LTA API error: Invalid Account Key'' (Some True)) \<noteq> None"
    by (simp add: text_result_def)
  have c9: "snd (CallTool (test_runtime upstream_401) (call ''travel_times'' None)) =
      Returned (text_result ''LTA API error: Invalid Account Key'' (Some True))"
    by (simp add: example_defs upstream_401_def)
  show ?thesis
    by (intro conjI) (rule h1 h2 h3 c4 c5 c6 c7 c8 c9)+
qed

section \<open>The outbound request\<close>

text \<open>
  C8, as the claim states it, fails: a \<open>serviceNo\<close> that is present in the arguments as
  the empty string is not forwarded. The request for
  \<open>{busStopCode: "01012", serviceNo: ""}\<close> has \<open>BusStopCode\<close> as its only parameter.
\<close>

theorem present_serviceNo_not_forwarded_counterexample:
  "args_other_stop_blank_service ''serviceNo'' = Some (JStr '''')
   \<and> fst (CallTool (test_runtime upstream_ok)
             (call ''bus_arrival'' (Some args_other_stop_blank_service))) =
       [get_request ''https://datamall2.mytransport.sg/ltaodataservice/v3/BusArrival''
          (Some [(''BusStopCode'', Some (JStr ''01012''))])]
   \<and> param_names
        (get_request ''https://datamall2.mytransport.sg/ltaodataservice/v3/BusArrival''
           (Some [(''BusStopCode'', Some (JStr ''01012''))])) = [''BusStopCode'']"
  by (simp add: example_defs args_other_stop_blank_service_def param_names_def)

text \<open>
  C8, amended. Every request a call issues is the only one of the call, comes from one
  of the seven cases, is a GET to the URL of that case, and carries exactly the header
  \<open>AccountKey\<close> bound to \<open>process.env.LTA_API_KEY\<close> and the header \<open>accept\<close> bound to
  \<open>application/json\<close>. Its query parameters are the arguments unchanged: \<open>BusStopCode\<close>
  is \<open>busStopCode\<close> and \<open>TrainLine\<close> is \<open>trainLine\<close>, always; \<open>ServiceNo\<close> is \<open>serviceNo\<close>
  when \<open>serviceNo\<close> is truthy, and is not in the request when \<open>serviceNo\<close> is absent or
  present with a falsy value; the four tools without arguments send no parameters.
\<close>

theorem outbound_request_invariant:
  assumes "r \<in> set (fst (CallTool rt p))"
  shows "fst (CallTool rt p) = [r]
    \<and> params_name p \<in> set tool_names
    \<and> req_method r = GET
    \<and> headers r = [(''AccountKey'', LTA_API_KEY rt), (''accept'', Some ''application/json'')]
    \<and> (params_name p = ''bus_arrival'' \<longrightarrow>
          url r = ''https://datamall2.mytransport.sg/ltaodataservice/v3/BusArrival''
          \<and> (\<exists>args. arguments p = Some args
                \<and> query_param r ''BusStopCode'' = Some (args ''busStopCode'')
                \<and> (truthy (args ''serviceNo'') \<longrightarrow>
                      query_param r ''ServiceNo'' = Some (args ''serviceNo'')
                      \<and> param_names r = [''BusStopCode'', ''ServiceNo''])
                \<and> (\<not> truthy (args ''serviceNo'') \<longrightarrow>
                      query_param r ''ServiceNo'' = None
                      \<and> param_names r = [''BusStopCode''])))
    \<and> (params_name p = ''station_crowding'' \<longrightarrow>
          url r = ''https://datamall2.mytransport.sg/ltaodataservice/PCDRealTime''
          \<and> (\<exists>args. arguments p = Some args
                \<and> params r = Some [(''TrainLine'', args ''trainLine'')]))
    \<and> (params_name p = ''train_alerts'' \<longrightarrow>
          url r = ''https://datamall2.mytransport.sg/ltaodataservice/TrainServiceAlerts''
          \<and> params r = None)
    \<and> (params_name p = ''carpark_availability'' \<longrightarrow>
          url r = ''https://datamall2.mytransport.sg/ltaodataservice/CarParkAvailabilityv2''
          \<and> params r = None)
    \<and> (params_name p = ''travel_times'' \<longrightarrow>
          url r = ''https://datamall2.mytransport.sg/ltaodataservice/EstTravelTimes''
          \<and> params r = None)
    \<and> (params_name p = ''traffic_incidents'' \<longrightarrow>
          url r = ''https://datamall2.mytransport.sg/ltaodataservice/TrafficIncidents''
          \<and> params r = None)
    \<and> (params_name p = ''station_crowd_forecast'' \<longrightarrow>
          url r = ''https://datamall2.mytransport.sg/ltaodataservice/PCDForecast''
          \<and> (\<exists>args. arguments p = Some args
                \<and> params r = Some [(''TrainLine'', args ''trainLine'')]))"
proof -
  from CallTool_shape [of rt p] assms obtain u ps where c: "CallTool rt p = try_get rt u ps"
    by auto
  from assms have r: "r = \<lparr> req_method = GET, url = u, params = ps,
      headers = [(''AccountKey'', LTA_API_KEY rt), (''accept'', Some ''application/json'')] \<rparr>"
    by (simp add: c try_get_requests)
  have one: "fst (CallTool rt p) = [r]"
    by (simp add: c r try_get_requests)
  have known: "params_name p \<in> set tool_names"
  proof (rule ccontr)
    assume "params_name p \<notin> set tool_names"
    then have "fst (CallTool rt p) = []"
      by (simp add: CallTool_def tool_names_def)
    with assms show False by simp
  qed
  have get: "req_method r = GET"
    by (simp add: r)
  have hdr: "headers r = [(''AccountKey'', LTA_API_KEY rt), (''accept'', Some ''application/json'')]"
    by (simp add: r)
  have bus: "params_name p = ''bus_arrival'' \<longrightarrow>
      url r = ''https://datamall2.mytransport.sg/ltaodataservice/v3/BusArrival''
      \<and> (\<exists>args. arguments p = Some args
            \<and> query_param r ''BusStopCode'' = Some (args ''busStopCode'')
            \<and> (truthy (args ''serviceNo'') \<longrightarrow>
                  query_param r ''ServiceNo'' = Some (args ''serviceNo'')
                  \<and> param_names r = [''BusStopCode'', ''ServiceNo''])
            \<and> (\<not> truthy (args ''serviceNo'') \<longrightarrow>
                  query_param r ''ServiceNo'' = None
                  \<and> param_names r = [''BusStopCode'']))"
    using assms
    by (cases "arguments p")
       (auto simp: CallTool_def bus_arrival_def try_get_requests query_param_def
          param_names_def Let_def)
  have crowd: "params_name p = ''station_crowding'' \<longrightarrow>
      url r = ''https://datamall2.mytransport.sg/ltaodataservice/PCDRealTime''
      \<and> (\<exists>args. arguments p = Some args \<and> params r = Some [(''TrainLine'', args ''trainLine'')])"
    using assms
    by (cases "arguments p")
       (auto simp: CallTool_def station_crowding_def try_get_requests Let_def)
  have alerts: "params_name p = ''train_alerts'' \<longrightarrow>
      url r = ''https://datamall2.mytransport.sg/ltaodataservice/TrainServiceAlerts''
      \<and> params r = None"
    using assms by (auto simp: CallTool_def train_alerts_def try_get_requests)
  have carpark: "params_name p = ''carpark_availability'' \<longrightarrow>
      url r = ''https://datamall2.mytransport.sg/ltaodataservice/CarParkAvailabilityv2''
      \<and> params r = None"
    using assms by (auto simp: CallTool_def carpark_availability_def try_get_requests)
  have travel: "params_name p = ''travel_times'' \<longrightarrow>
      url r = ''https://datamall2.mytransport.sg/ltaodataservice/EstTravelTimes''
      \<and> params r = None"
    using assms by (auto simp: CallTool_def travel_times_def try_get_requests)
  have incidents: "params_name p = ''traffic_incidents'' \<longrightarrow>
      url r = ''https://datamall2.mytransport.sg/ltaodataservice/TrafficIncidents''
      \<and> params r = None"
    using assms by (auto simp: CallTool_def traffic_incidents_def try_get_requests)
  have forecast: "params_name p = ''station_crowd_forecast'' \<longrightarrow>
      url r = ''https://datamall2.mytransport.sg/ltaodataservice/PCDForecast''
      \<and> (\<exists>args. arguments p = Some args \<and> params r = Some [(''TrainLine'', args ''trainLine'')])"
    using assms
    by (cases "arguments p")
       (auto simp: CallTool_def station_crowd_forecast_def try_get_requests Let_def)
  show ?thesis
    by (intro conjI) (rule one known get hdr bus crowd alerts carpark travel incidents forecast)+
qed

theorem outbound_request_invariant_witness:
  "get_request ''https://datamall2.mytransport.sg/ltaodataservice/v3/BusArrival''
       (Some [(''BusStopCode'', Some (JStr ''83139'')), (''ServiceNo'', Some (JStr ''15''))])
     \<in> set (fst (CallTool (test_runtime upstream_ok) (call ''bus_arrival'' (Some args_stop_service))))
   \<and> headers (get_request ''https://datamall2.mytransport.sg/ltaodataservice/v3/BusArrival''
       (Some [(''BusStopCode'', Some (JStr ''83139'')), (''ServiceNo'', Some (JStr ''15''))])) =
       [(''AccountKey'', LTA_API_KEY (test_runtime upstream_ok)), (''accept'', Some ''application/json'')]
   \<and> LTA_API_KEY (test_runtime upstream_ok) = Some ''test-key''
   \<and> map (\<lambda>n. map url (fst (CallTool (test_runtime upstream_ok) (call n (Some [''trainLine'' \<mapsto> JStr ''NSL''])))))
        tool_names =
       [[''https://datamall2.mytransport.sg/ltaodataservice/v3/BusArrival''],
        [''https://datamall2.mytransport.sg/ltaodataservice/PCDRealTime''],
        [''https://datamall2.mytransport.sg/ltaodataservice/TrainServiceAlerts''],
        [''https://datamall2.mytransport.sg/ltaodataservice/CarParkAvailabilityv2''],
        [''https://datamall2.mytransport.sg/ltaodataservice/EstTravelTimes''],
        [''https://datamall2.mytransport.sg/ltaodataservice/TrafficIncidents''],
        [''https://datamall2.mytransport.sg/ltaodataservice/PCDForecast'']]"
proof -
  let ?rt = "test_runtime upstream_ok"
  let ?p = "call ''bus_arrival'' (Some args_stop_service)"
  let ?r = "get_request ''https://datamall2.mytransport.sg/ltaodataservice/v3/BusArrival''
       (Some [(''BusStopCode'', Some (JStr ''83139'')), (''ServiceNo'', Some (JStr ''15''))])"
  have h: "?r \<in> set (fst (CallTool ?rt ?p))"
    by (simp add: example_defs args_stop_service_def)
  note t = outbound_request_invariant [OF h]
  from t have c2: "headers ?r =
      [(''AccountKey'', LTA_API_KEY ?rt), (''accept'', Some ''application/json'')]"
    by (elim conjE)
  have c3: "LTA_API_KEY ?rt = Some ''test-key''"
    by (simp add: test_runtime_def)
  have c4: "map (\<lambda>n. map url (fst (CallTool ?rt (call n (Some [''trainLine'' \<mapsto> JStr ''NSL''])))))
        tool_names =
       [[''https://datamall2.mytransport.sg/ltaodataservice/v3/BusArrival''],
        [''https://datamall2.mytransport.sg/ltaodataservice/PCDRealTime''],
        [''https://datamall2.mytransport.sg/ltaodataservice/TrainServiceAlerts''],
        [''https://datamall2.mytransport.sg/ltaodataservice/CarParkAvailabilityv2''],
        [''https://datamall2.mytransport.sg/ltaodataservice/EstTravelTimes''],
        [''https://datamall2.mytransport.sg/ltaodataservice/TrafficIncidents''],
        [''https://datamall2.mytransport.sg/ltaodataservice/PCDForecast'']]"
    by (simp add: tool_names_def example_defs)
  show ?thesis
    by (intro conjI) (rule h c2 c3 c4)+
qed

section \<open>Arguments of bus_arrival\<close>

text \<open>
  C3, as the claim states it, fails: a \<open>serviceNo\<close> that is supplied as the empty string
  is not forwarded. The request for \<open>{busStopCode: "83139", serviceNo: ""}\<close> carries
  \<open>BusStopCode\<close> alone.
\<close>

theorem supplied_serviceNo_counterexample:
  "args_stop_blank_service ''busStopCode'' = Some (JStr ''83139'')
   \<and> args_stop_blank_service ''serviceNo'' = Some (JStr '''')
   \<and> fst (CallTool (test_runtime upstream_ok) (call ''bus_arrival'' (Some args_stop_blank_service))) =
       [get_request ''https://datamall2.mytransport.sg/ltaodataservice/v3/BusArrival''
          (Some [(''BusStopCode'', Some (JStr ''83139''))])]
   \<and> query_param
        (get_request ''https://datamall2.mytransport.sg/ltaodataservice/v3/BusArrival''
           (Some [(''BusStopCode'', Some (JStr ''83139''))])) ''ServiceNo'' = None"
  by (simp add: example_defs args_stop_blank_service_def query_param_def)

text \<open>
  C3, amended. For bus_arrival with \<open>busStopCode\<close> supplied, the one request carries
  \<open>BusStopCode\<close> with the supplied value; when \<open>serviceNo\<close> is absent it carries no
  \<open>ServiceNo\<close> parameter; when \<open>serviceNo\<close> is supplied with a truthy value (such as
  \<open>"15"\<close>, or any other string that is not empty) it carries both, with the supplied values.
\<close>

theorem bus_arrival_query_parameters:
  assumes "params_name p = ''bus_arrival''"
    and "arguments p = Some args"
    and "args ''busStopCode'' = Some code"
  shows "\<exists>r. fst (CallTool rt p) = [r]
           \<and> req_method r = GET
           \<and> query_param r ''BusStopCode'' = Some (Some code)
           \<and> (args ''serviceNo'' = None \<longrightarrow>
                 param_names r = [''BusStopCode''] \<and> query_param r ''ServiceNo'' = None)
           \<and> (truthy (args ''serviceNo'') \<longrightarrow>
                 param_names r = [''BusStopCode'', ''ServiceNo'']
                 \<and> query_param r ''ServiceNo'' = Some (args ''serviceNo''))
           \<and> (\<forall>s. args ''serviceNo'' = Some (JStr s) \<and> s \<noteq> [] \<longrightarrow>
                 query_param r ''ServiceNo'' = Some (Some (JStr s)))"
  using assms
  by (auto simp: CallTool_def bus_arrival_def try_get_requests query_param_def
        param_names_def Let_def)

theorem bus_arrival_query_parameters_witness:
  "args_stop ''busStopCode'' = Some (JStr ''83139'')
   \<and> args_stop ''serviceNo'' = None
   \<and> map param_names (fst (CallTool (test_runtime upstream_ok) (call ''bus_arrival'' (Some args_stop)))) =
       [[''BusStopCode'']]
   \<and> fst (CallTool (test_runtime upstream_ok) (call ''bus_arrival'' (Some args_stop))) =
       [get_request ''https://datamall2.mytransport.sg/ltaodataservice/v3/BusArrival''
          (Some [(''BusStopCode'', Some (JStr ''83139''))])]
   \<and> args_stop_service ''serviceNo'' = Some (JStr ''15'')
   \<and> truthy (args_stop_service ''serviceNo'')
   \<and> fst (CallTool (test_runtime upstream_ok) (call ''bus_arrival'' (Some args_stop_service))) =
       [get_request ''https://datamall2.mytransport.sg/ltaodataservice/v3/BusArrival''
          (Some [(''BusStopCode'', Some (JStr ''83139'')), (''ServiceNo'', Some (JStr ''15''))])]"
proof -
  let ?rt = "test_runtime upstream_ok"
  let ?p = "call ''bus_arrival'' (Some args_stop)"
  have h1: "params_name ?p = ''bus_arrival''"
    by (simp add: call_def)
  have h2: "arguments ?p = Some args_stop"
    by (simp add: call_def)
  have h3: "args_stop ''busStopCode'' = Some (JStr ''83139'')"
    by (simp add: args_stop_def)
  have h4: "args_stop ''serviceNo'' = None"
    by (simp add: args_stop_def)
  from bus_arrival_query_parameters [OF h1 h2 h3, of ?rt] h4
  have c3: "map param_names (fst (CallTool ?rt ?p)) = [[''BusStopCode'']]"
    by auto
  have c4: "fst (CallTool ?rt ?p) =
      [get_request ''https://datamall2.mytransport.sg/ltaodataservice/v3/BusArrival''
         (Some [(''BusStopCode'', Some (JStr ''83139''))])]"
    by (simp add: example_defs args_stop_def)
  have c5: "args_stop_service ''serviceNo'' = Some (JStr ''15'')"
    by (simp add: args_stop_service_def)
  have c6: "truthy (args_stop_service ''serviceNo'')"
    by (simp add: args_stop_service_def)
  have c7: "fst (CallTool ?rt (call ''bus_arrival'' (Some args_stop_service))) =
      [get_request ''https://datamall2.mytransport.sg/ltaodataservice/v3/BusArrival''
         (Some [(''BusStopCode'', Some (JStr ''83139'')), (''ServiceNo'', Some (JStr ''15''))])]"
    by (simp add: example_defs args_stop_service_def)
  show ?thesis
    by (intro conjI) (rule h3 h4 c3 c4 c5 c6 c7)+
qed

text \<open>
  C10. For bus_arrival, a \<open>serviceNo\<close> that is present but falsy (the empty string,
  \<open>null\<close>, \<open>false\<close>, \<open>0\<close>) is not forwarded: the call is the same call as with
  \<open>serviceNo\<close> removed from the arguments, and its request has \<open>BusStopCode\<close> as its only
  parameter. The request has a \<open>ServiceNo\<close> parameter exactly when \<open>serviceNo\<close> is truthy.
\<close>

theorem falsy_serviceNo_is_omitted:
  assumes "params_name p = ''bus_arrival''"
    and "arguments p = Some args"
  shows "\<exists>r. fst (CallTool rt p) = [r]
           \<and> (truthy (args ''serviceNo'') \<longleftrightarrow> ''ServiceNo'' \<in> set (param_names r))
           \<and> (\<not> truthy (args ''serviceNo'') \<longrightarrow>
                 param_names r = [''BusStopCode'']
                 \<and> query_param r ''ServiceNo'' = None
                 \<and> CallTool rt p =
                     CallTool rt (p\<lparr> arguments := Some (args(''serviceNo'' := None)) \<rparr>))"
  using assms
  by (auto simp: CallTool_def bus_arrival_def try_get_def query_param_def
        param_names_def Let_def)

theorem falsy_serviceNo_is_omitted_witness:
  "args_stop_blank_service ''serviceNo'' = Some (JStr '''')
   \<and> \<not> truthy (args_stop_blank_service ''serviceNo'')
   \<and> \<not> truthy (Some JNull) \<and> \<not> truthy (Some (JBool False)) \<and> \<not> truthy (Some (JNum (Finite ''0'')))
   \<and> map param_names
        (fst (CallTool (test_runtime upstream_ok) (call ''bus_arrival'' (Some args_stop_blank_service)))) =
       [[''BusStopCode'']]
   \<and> CallTool (test_runtime upstream_ok) (call ''bus_arrival'' (Some args_stop_blank_service)) =
       CallTool (test_runtime upstream_ok) (call ''bus_arrival'' (Some args_stop))"
proof -
  let ?rt = "test_runtime upstream_ok"
  let ?p = "call ''bus_arrival'' (Some args_stop_blank_service)"
  have h1: "params_name ?p = ''bus_arrival''"
    by (simp add: call_def)
  have h2: "arguments ?p = Some args_stop_blank_service"
    by (simp add: call_def)
  have h3: "\<not> truthy (args_stop_blank_service ''serviceNo'')"
    by (simp add: args_stop_blank_service_def)
  have c1: "args_stop_blank_service ''serviceNo'' = Some (JStr '''')"
    by (simp add: args_stop_blank_service_def)
  have c3: "\<not> truthy (Some JNull)" and c4: "\<not> truthy (Some (JBool False))"
    and c5: "\<not> truthy (Some (JNum (Finite ''0'')))"
    by simp_all
  from falsy_serviceNo_is_omitted [OF h1 h2, of ?rt] h3
  have c6: "map param_names (fst (CallTool ?rt ?p)) = [[''BusStopCode'']]"
    by auto
  have c7: "CallTool ?rt ?p = CallTool ?rt (call ''bus_arrival'' (Some args_stop))"
    by (simp add: example_defs args_stop_blank_service_def args_stop_def)
  show ?thesis
    by (intro conjI) (rule c1 h3 c3 c4 c5 c6 c7)+
qed

section \<open>A missing trainLine\<close>

text \<open>
  C4, as the claim states it, fails: with an argument mapping that omits \<open>trainLine\<close>,
  station_crowding and station_crowd_forecast signal no error of their own. Each issues
  its request with \<open>TrainLine\<close> bound to \<open>undefined\<close> and, the request resolved, returns
  the successful result.
\<close>

theorem missing_trainLine_counterexample:
  "no_args ''trainLine'' = None
   \<and> CallTool (test_runtime upstream_ok) (call ''station_crowding'' (Some no_args)) =
       ([get_request ''https://datamall2.mytransport.sg/ltaodataservice/PCDRealTime''
           (Some [(''TrainLine'', None)])],
        Returned (text_result (JSON_stringify (JObj [(''value'', JArr [])]) 2) None))
   \<and> \<not> signals_error (snd (CallTool (test_runtime upstream_ok)
                                (call ''station_crowding'' (Some no_args))))
   \<and> CallTool (test_runtime upstream_ok) (call ''station_crowd_forecast'' (Some no_args)) =
       ([get_request ''https://datamall2.mytransport.sg/ltaodataservice/PCDForecast''
           (Some [(''TrainLine'', None)])],
        Returned (text_result (JSON_stringify (JObj [(''value'', JArr [])]) 2) None))
   \<and> \<not> signals_error (snd (CallTool (test_runtime upstream_ok)
                                (call ''station_crowd_forecast'' (Some no_args))))
   \<and> query_param
        (get_request ''https://datamall2.mytransport.sg/ltaodataservice/PCDForecast''
           (Some [(''TrainLine'', None)])) ''TrainLine'' = Some None"
  by (simp add: example_defs upstream_ok_def no_args_def query_param_def)

text \<open>
  C4, amended. For station_crowding and station_crowd_forecast: when the argument
  mapping is absent, the call throws (the TypeError of destructuring \<open>trainLine\<close> out of
  \<open>undefined\<close>) before any request is issued; when the mapping is
  present and omits \<open>trainLine\<close>, the call issues its one GET with \<open>TrainLine\<close> bound to
  \<open>undefined\<close>, and its outcome is the outcome of that request: the successful result
  when it is resolved, the \<open>catch\<close> clause's when it is rejected.
\<close>

theorem missing_trainLine_is_forwarded:
  assumes "params_name p = ''station_crowding'' \<or> params_name p = ''station_crowd_forecast''"
  shows "(arguments p = None \<longrightarrow>
            fst (CallTool rt p) = []
            \<and> snd (CallTool rt p) = Thrown (TypeError (Cannot_destructure ''trainLine'')))
    \<and> (\<forall>args. arguments p = Some args \<and> args ''trainLine'' = None \<longrightarrow>
          (\<exists>r. fst (CallTool rt p) = [r]
             \<and> req_method r = GET
             \<and> params r = Some [(''TrainLine'', None)]
             \<and> query_param r ''TrainLine'' = Some None
             \<and> (\<forall>response. axios_get rt r = Resolved response \<longrightarrow>
                   snd (CallTool rt p) =
                     Returned (text_result (JSON_stringify (data response) 2) None)
                   \<and> \<not> signals_error (snd (CallTool rt p)))
             \<and> (\<forall>e. axios_get rt r = Rejected e \<longrightarrow>
                   snd (CallTool rt p) = catch_clause e)))"
proof (rule conjI)
  show "arguments p = None \<longrightarrow>
      fst (CallTool rt p) = []
            \<and> snd (CallTool rt p) = Thrown (TypeError (Cannot_destructure ''trainLine''))"
    using assms
    by (auto simp: CallTool_def station_crowding_def station_crowd_forecast_def
          destructure_error_def)
next
  show "\<forall>args. arguments p = Some args \<and> args ''trainLine'' = None \<longrightarrow>
      (\<exists>r. fst (CallTool rt p) = [r]
         \<and> req_method r = GET
         \<and> params r = Some [(''TrainLine'', None)]
         \<and> query_param r ''TrainLine'' = Some None
         \<and> (\<forall>response. axios_get rt r = Resolved response \<longrightarrow>
               snd (CallTool rt p) =
                 Returned (text_result (JSON_stringify (data response) 2) None)
               \<and> \<not> signals_error (snd (CallTool rt p)))
         \<and> (\<forall>e. axios_get rt r = Rejected e \<longrightarrow>
               snd (CallTool rt p) = catch_clause e))"
  proof (intro allI impI)
    fix args
    assume a: "arguments p = Some args \<and> args ''trainLine'' = None"
    with assms obtain u where c: "CallTool rt p = try_get rt u (Some [(''TrainLine'', None)])"
      by (auto simp: CallTool_def station_crowding_def station_crowd_forecast_def Let_def)
    obtain r where r: "fst (try_get rt u (Some [(''TrainLine'', None)])) = [r]"
      and g: "req_method r = GET" and ps: "params r = Some [(''TrainLine'', None)]"
      by (simp add: try_get_requests)
    from ps have q: "query_param r ''TrainLine'' = Some None"
      by (simp add: query_param_def)
    have ok: "\<forall>response. axios_get rt r = Resolved response \<longrightarrow>
        snd (CallTool rt p) = Returned (text_result (JSON_stringify (data response) 2) None)
        \<and> \<not> signals_error (snd (CallTool rt p))"
      using try_get_resolved [OF r] by (simp add: c text_result_def)
    have ko: "\<forall>e. axios_get rt r = Rejected e \<longrightarrow> snd (CallTool rt p) = catch_clause e"
      using try_get_rejected [OF r] by (simp add: c)
    from r have one: "fst (CallTool rt p) = [r]"
      by (simp add: c)
    show "\<exists>r. fst (CallTool rt p) = [r]
        \<and> req_method r = GET
        \<and> params r = Some [(''TrainLine'', None)]
        \<and> query_param r ''TrainLine'' = Some None
        \<and> (\<forall>response. axios_get rt r = Resolved response \<longrightarrow>
              snd (CallTool rt p) = Returned (text_result (JSON_stringify (data response) 2) None)
              \<and> \<not> signals_error (snd (CallTool rt p)))
        \<and> (\<forall>e. axios_get rt r = Rejected e \<longrightarrow> snd (CallTool rt p) = catch_clause e)"
      by (rule exI [of _ r]) (intro conjI one g ps q ok ko)
  qed
qed

theorem missing_trainLine_is_forwarded_witness:
  "arguments (call ''station_crowding'' None) = None
   \<and> fst (CallTool (test_runtime upstream_ok) (call ''station_crowding'' None)) = []
   \<and> signals_error (snd (CallTool (test_runtime upstream_ok) (call ''station_crowding'' None)))
   \<and> arguments (call ''station_crowd_forecast'' (Some no_args)) = Some no_args
   \<and> no_args ''trainLine'' = None
   \<and> map params (fst (CallTool (test_runtime upstream_ok)
                         (call ''station_crowd_forecast'' (Some no_args)))) =
       [Some [(''TrainLine'', None)]]"
proof -
  let ?rt = "test_runtime upstream_ok"
  let ?p = "call ''station_crowding'' None"
  let ?q = "call ''station_crowd_forecast'' (Some no_args)"
  have hp: "params_name ?p = ''station_crowding'' \<or> params_name ?p = ''station_crowd_forecast''"
    by (simp add: call_def)
  have hq: "params_name ?q = ''station_crowding'' \<or> params_name ?q = ''station_crowd_forecast''"
    by (simp add: call_def)
  have c1: "arguments ?p = None"
    by (simp add: call_def)
  from missing_trainLine_is_forwarded [OF hp, of ?rt] c1
  have c2: "fst (CallTool ?rt ?p) = []" and c3: "signals_error (snd (CallTool ?rt ?p))"
    by auto
  have c4: "arguments ?q = Some no_args"
    by (simp add: call_def)
  have c5: "no_args ''trainLine'' = None"
    by (simp add: no_args_def)
  from missing_trainLine_is_forwarded [OF hq, of ?rt] c4 c5
  have c6: "map params (fst (CallTool ?rt ?q)) = [Some [(''TrainLine'', None)]]"
    by auto
  show ?thesis
    by (intro conjI) (rule c1 c2 c3 c4 c5 c6)+
qed

end
